theory Spec2Isabelle
  imports Main "HOL-Library.Word"
begin

text \<open>
  A model of \<open>FormAutomation.js\<close>, the script that fills and submits one web form through
  Puppeteer: the field validator with its two regular expressions, the form loader and
  filler, the click with retries, the success detector and the run as a whole.  The
  browser, the file system and the terminal are an environment that answers each call;
  what the script does is the trace of its calls and log lines.
\<close>

section \<open>JavaScript strings and values\<close>

text \<open>
  A JavaScript string is a sequence of 16-bit code units.  String literals of the script
  are ASCII; \<open>lit\<close> embeds them.
\<close>

type_synonym code_unit = "16 word"
type_synonym js_string = "code_unit list"

definition lit :: "string \<Rightarrow> js_string" where
  "lit s = map of_char s"

text \<open>
  \<open>String.prototype.includes\<close>: the argument occurs as a contiguous run of code units.
\<close>

fun starts_with :: "js_string \<Rightarrow> js_string \<Rightarrow> bool" where
  "starts_with s [] = True"
| "starts_with [] (c # cs) = False"
| "starts_with (d # ds) (c # cs) = (d = c \<and> starts_with ds cs)"

fun js_includes :: "js_string \<Rightarrow> js_string \<Rightarrow> bool" where
  "js_includes [] t = (t = [])"
| "js_includes (d # ds) t = (starts_with (d # ds) t \<or> js_includes ds t)"

text \<open>
  The value of a property read \<open>obj[key]\<close> on an object whose own properties hold
  strings: the string, or \<open>undefined\<close> when the key is absent.  \<open>ToString\<close> is the
  coercion that \<open>RegExp.prototype.test\<close> applies to its argument.
\<close>

datatype js_value = Undefined | Str js_string

fun ToString :: "js_value \<Rightarrow> js_string" where
  "ToString Undefined = lit ''undefined''"
| "ToString (Str s) = s"

section \<open>Regular expressions\<close>

text \<open>
  The fragment of ECMAScript regular expressions the script uses, without flags:
  a character class, \<open>^\<close>, \<open>$\<close>, sequencing, \<open>*\<close>, \<open>+\<close> and the negative
  lookahead \<open>(?!...)\<close>.  \<open>ends r s i\<close> lists the positions at which a match of \<open>r\<close>
  that starts at position \<open>i\<close> of \<open>s\<close> can end, the greedy choice first.  An iteration
  of \<open>*\<close> that consumes nothing is not repeated, as in the language definition, so
  \<open>length s - i\<close> rounds are enough.
\<close>

datatype regex =
    Chr "code_unit \<Rightarrow> bool"
  | Bol
  | Eol
  | Seq regex regex
  | Star regex
  | Plus regex
  | NegLook regex

fun star_iter :: "(nat \<Rightarrow> nat list) \<Rightarrow> nat \<Rightarrow> nat \<Rightarrow> nat list" where
  "star_iter f 0 i = [i]"
| "star_iter f (Suc n) i =
     concat (map (star_iter f n) (filter (\<lambda>j. i < j) (f i))) @ [i]"

primrec ends :: "regex \<Rightarrow> js_string \<Rightarrow> nat \<Rightarrow> nat list" where
  "ends (Chr P) s i = (if i < length s \<and> P (s ! i) then [Suc i] else [])"
| "ends Bol s i = (if i = 0 then [i] else [])"
| "ends Eol s i = (if i = length s then [i] else [])"
| "ends (Seq a b) s i = concat (map (ends b s) (ends a s i))"
| "ends (Star a) s i = star_iter (ends a s) (length s - i) i"
| "ends (Plus a) s i =
     concat (map (\<lambda>j. star_iter (ends a s) (length s - j) j) (ends a s i))"
| "ends (NegLook a) s i = (if ends a s i = [] then [i] else [])"

text \<open>
  \<open>RegExp.prototype.test\<close> of a regular expression without the \<open>g\<close> and \<open>y\<close> flags:
  the argument is coerced to a string, and a match may start at any position.
\<close>

definition matches_at :: "regex \<Rightarrow> js_string \<Rightarrow> nat \<Rightarrow> bool" where
  "matches_at r s i = (ends r s i \<noteq> [])"

definition test :: "regex \<Rightarrow> js_value \<Rightarrow> bool" where
  "test r v = (let s = ToString v in list_ex (matches_at r s) [0..<Suc (length s)])"

text \<open>
  The class \<open>\s\<close> is WhiteSpace together with LineTerminator; the class \<open>.\<close> is
  every code unit that is not a LineTerminator.
\<close>

definition is_line_terminator :: "code_unit \<Rightarrow> bool" where
  "is_line_terminator c = (c = 0x000A \<or> c = 0x000D \<or> c = 0x2028 \<or> c = 0x2029)"

definition is_space :: "code_unit \<Rightarrow> bool" where
  "is_space c =
     (is_line_terminator c \<or> c = 0x0009 \<or> c = 0x000B \<or> c = 0x000C \<or> c = 0x0020 \<or>
      c = 0x00A0 \<or> c = 0x1680 \<or> (0x2000 \<le> c \<and> c \<le> 0x200A) \<or> c = 0x202F \<or>
      c = 0x205F \<or> c = 0x3000 \<or> c = 0xFEFF)"

definition dot :: "code_unit \<Rightarrow> bool" where
  "dot c = (\<not> is_line_terminator c)"

section \<open>Configuration\<close>

record selectors =
  name :: js_string
  email :: js_string
  phone :: js_string
  company :: js_string
  employees :: js_string
  submitButton :: js_string

record config =
  formUrl :: js_string
  selectors :: selectors
  thankYouPage :: js_string
  thankYouText :: "js_string list"

definition config :: config where
  "config = \<lparr>
     formUrl = lit ''https://testsite.getjones.com/ExampleForm/'',
     selectors = \<lparr>
       name = lit ''#name'',
       email = lit ''#email'',
       phone = lit ''#phone'',
       company = lit ''#company'',
       employees = lit ''#employees'',
       submitButton = lit ''button.primary.button'' \<rparr>,
     thankYouPage = lit ''thank-you.html'',
     thankYouText = [lit ''Thank you!'', lit ''You'' @ [0x27] @ lit ''ll hear from us soon.''] \<rparr>"

section \<open>The observable trace\<close>

text \<open>
  Everything the script does to its environment is an event appended to the trace of the
  run: a line written by \<open>logWithTimestamp\<close> (the timestamp prefix is left out), a
  call of the browser driver, of the file system, of readline or of the process.
\<close>

datatype event =
    Log js_string
  | Launch
  | Pages
  | NewPage
  | Goto js_string
  | FsAccess js_string
  | FsMkdir js_string
  | WaitForSelector js_string bool nat
  | TypeText js_string js_string nat
  | SelectOption js_string js_string
  | Screenshot js_string
  | Click js_string
  | WaitForNavigation nat
  | PageUrl
  | Evaluate
  | Question js_string
  | RlClose
  | BrowserClose
  | ProcessExit nat

type_synonym trace = "event list"

datatype js_error =
  JsError (err_name: js_string) (err_code: "js_string option") (err_message: js_string)

text \<open>
  The environment of a run answers every call, given the trace so far: whether the call
  throws, and what the reads return.
\<close>

record env =
  fails :: "trace \<Rightarrow> event \<Rightarrow> js_error option"
  pageUrl :: "trace \<Rightarrow> js_string"
  innerText :: "trace \<Rightarrow> js_string"
  dateNow :: "trace \<Rightarrow> nat"
  random100 :: "trace \<Rightarrow> nat"
  openPages :: "trace \<Rightarrow> nat"
  enterPressed :: "trace \<Rightarrow> bool"
  dirname :: js_string

text \<open>
  A computation takes the trace and returns the trace extended, with either the error
  thrown or the value returned.
\<close>

type_synonym 'a io = "trace \<Rightarrow> (js_error + 'a) \<times> trace"

definition io_return :: "'a \<Rightarrow> 'a io" where
  "io_return v t = (Inr v, t)"

definition io_throw :: "js_error \<Rightarrow> 'a io" where
  "io_throw e t = (Inl e, t)"

definition io_bind :: "'a io \<Rightarrow> ('a \<Rightarrow> 'b io) \<Rightarrow> 'b io" where
  "io_bind m f t = (case m t of (Inl e, t') \<Rightarrow> (Inl e, t') | (Inr v, t') \<Rightarrow> f v t')"

definition io_catch :: "'a io \<Rightarrow> (js_error \<Rightarrow> 'a io) \<Rightarrow> 'a io" where
  "io_catch m h t = (case m t of (Inl e, t') \<Rightarrow> h e t' | (Inr v, t') \<Rightarrow> (Inr v, t'))"

definition perform :: "env \<Rightarrow> event \<Rightarrow> unit io" where
  "perform env ev t =
     (case fails env t ev of Some e \<Rightarrow> (Inl e, t @ [ev]) | None \<Rightarrow> (Inr (), t @ [ev]))"

definition logWithTimestamp :: "js_string \<Rightarrow> trace \<Rightarrow> trace" where
  "logWithTimestamp message t = t @ [Log message]"

definition log_io :: "js_string \<Rightarrow> unit io" where
  "log_io message t = (Inr (), logWithTimestamp message t)"

text \<open>Decimal digits of a number, as a template literal prints it.\<close>

fun decimal :: "nat \<Rightarrow> js_string" where
  "decimal n = (if n < 10 then [of_nat (48 + n)] else decimal (n div 10) @ [of_nat (48 + n mod 10)])"

declare decimal.simps [simp del]

text \<open>\<open>path.join\<close> of a directory and a file name (no normalisation is modelled).\<close>

definition path_join :: "js_string \<Rightarrow> js_string \<Rightarrow> js_string" where
  "path_join dir file = dir @ lit ''/'' @ file"

section \<open>Directory bootstrap\<close>

text \<open>\<open>ensureDirectoryExists\<close> (lines 37--50).\<close>

definition ensureDirectoryExists :: "env \<Rightarrow> js_string \<Rightarrow> unit io" where
  "ensureDirectoryExists env dirPath =
     io_catch
       (io_bind (perform env (FsAccess dirPath)) (\<lambda>_.
        log_io (lit ''Directory verified: '' @ dirPath)))
       (\<lambda>error.
          if err_code error = Some (lit ''ENOENT'')
          then io_bind (perform env (FsMkdir dirPath)) (\<lambda>_.
               log_io (lit ''Directory created: '' @ dirPath))
          else io_bind (log_io (lit ''Failed to access directory '' @ dirPath @ lit '': '' @ err_message error)) (\<lambda>_.
               io_throw error))"

section \<open>Field validation\<close>

text \<open>
  \<open>validateFormData\<close> (lines 58--86).  The two patterns are \<open>/@/\<close> and
  \<open>/^(?!\s*$).+/\<close>.
\<close>

definition emailRegex :: regex where
  "emailRegex = Chr (\<lambda>c. c = 0x40)"

definition nonEmptyRegex :: regex where
  "nonEmptyRegex = Seq Bol (Seq (NegLook (Seq (Star (Chr is_space)) Eol)) (Plus (Chr dot)))"

text \<open>
  The form data is an object; it is given by its entries in property order, the order
  \<open>Object.entries\<close> enumerates them in.
\<close>

type_synonym form_data = "(js_string \<times> js_string) list"

definition get_prop :: "form_data \<Rightarrow> js_string \<Rightarrow> js_value" where
  "get_prop formData key = (case map_of formData key of None \<Rightarrow> Undefined | Some v \<Rightarrow> Str v)"

definition msg_name :: js_string where
  "msg_name = lit ''Name cannot be empty.''"

definition msg_email :: js_string where
  "msg_email = lit ''Invalid email format. Email must contain \"@\" character, Please fill out this field.''"

definition msg_phone :: js_string where
  "msg_phone = lit ''Phone number cannot be empty, Please fill out this field.''"

definition msg_company :: js_string where
  "msg_company = lit ''Company name cannot be empty, Please fill out this field.''"

definition validation_errors :: "form_data \<Rightarrow> js_string list" where
  "validation_errors formData =
     (let errors = [];
          errors = (if \<not> test nonEmptyRegex (get_prop formData (name (selectors config)))
                    then errors @ [msg_name] else errors);
          errors = (if \<not> test emailRegex (get_prop formData (email (selectors config)))
                    then errors @ [msg_email] else errors);
          errors = (if \<not> test nonEmptyRegex (get_prop formData (phone (selectors config)))
                    then errors @ [msg_phone] else errors);
          errors = (if \<not> test nonEmptyRegex (get_prop formData (company (selectors config)))
                    then errors @ [msg_company] else errors)
      in errors)"

definition validateFormData :: "form_data \<Rightarrow> trace \<Rightarrow> js_string list \<times> trace" where
  "validateFormData formData t =
     (let errors = validation_errors formData
      in if length errors = 0
         then (errors,
               logWithTimestamp (lit ''-----------------------------------------------------------------------------'')
                 (logWithTimestamp (lit ''All fields passed validation successfully ! '') t))
         else (errors, t))"

text \<open>
  \<open>validateFormData\<close> above is the function as the run calls it, on an object whose
  property values are strings.  The function itself accepts any argument.  Below it is
  modelled on \<open>undefined\<close>, \<open>null\<close> and on objects whose properties hold
  \<open>undefined\<close>, \<open>null\<close>, booleans, strings or Symbols (numbers and nested objects are
  left out).  Reading a property of \<open>undefined\<close> or \<open>null\<close> throws a TypeError, and so does
  the \<open>ToString\<close> of a Symbol inside \<open>test\<close>; a throw leaves the function before anything
  is logged.  \<open>check_field\<close> is one statement
  \<open>if (!regex.test(formData[key])) errors.push(msg)\<close>.
\<close>

datatype js_field = FUndefined | FNull | FBoolean bool | FString js_string | FSymbol js_string

datatype js_arg = ArgUndefined | ArgNull | ArgObject "(js_string \<times> js_field) list"

definition TypeError :: "js_string \<Rightarrow> js_error" where
  "TypeError m = JsError (lit ''TypeError'') None m"

fun ToString_field :: "js_field \<Rightarrow> js_error + js_string" where
  "ToString_field FUndefined = Inr (lit ''undefined'')"
| "ToString_field FNull = Inr (lit ''null'')"
| "ToString_field (FBoolean b) = Inr (if b then lit ''true'' else lit ''false'')"
| "ToString_field (FString s) = Inr s"
| "ToString_field (FSymbol d) = Inl (TypeError (lit ''Cannot convert a Symbol value to a string''))"

definition lookup_field :: "(js_string \<times> js_field) list \<Rightarrow> js_string \<Rightarrow> js_field" where
  "lookup_field entries key = (case map_of entries key of None \<Rightarrow> FUndefined | Some v \<Rightarrow> v)"

fun get_field :: "js_arg \<Rightarrow> js_string \<Rightarrow> js_error + js_field" where
  "get_field ArgUndefined key =
     Inl (TypeError (lit ''Cannot read properties of undefined (reading '' @ [0x27] @ key @ [0x27] @ lit '')''))"
| "get_field ArgNull key =
     Inl (TypeError (lit ''Cannot read properties of null (reading '' @ [0x27] @ key @ [0x27] @ lit '')''))"
| "get_field (ArgObject entries) key = Inr (lookup_field entries key)"

definition test_field :: "regex \<Rightarrow> js_field \<Rightarrow> js_error + bool" where
  "test_field r v = (case ToString_field v of Inl e \<Rightarrow> Inl e | Inr s \<Rightarrow> Inr (test r (Str s)))"

definition check_field ::
  "js_arg \<Rightarrow> regex \<Rightarrow> js_string \<Rightarrow> js_string \<Rightarrow> js_string list \<Rightarrow> js_error + js_string list" where
  "check_field formData r key msg errors =
     (case get_field formData key of
        Inl e \<Rightarrow> Inl e
      | Inr v \<Rightarrow>
          (case test_field r v of
             Inl e \<Rightarrow> Inl e
           | Inr ok \<Rightarrow> Inr (if \<not> ok then errors @ [msg] else errors)))"


section \<open>Filling the form\<close>

text \<open>
  \<open>fillFormFields\<close> (lines 95--107): the loop over \<open>Object.entries(formData)\<close>, each
  round in its own \<open>try\<close>.  The typing delay is \<open>Math.floor(Math.random() * 100) + 50\<close>.
\<close>

fun fill_loop :: "env \<Rightarrow> form_data \<Rightarrow> unit io" where
  "fill_loop env [] = io_return ()"
| "fill_loop env ((selector, val) # rest) =
     io_bind
       (io_catch
          (io_bind (perform env (WaitForSelector selector True 20000)) (\<lambda>_.
           io_bind (\<lambda>t. perform env (TypeText selector val (random100 env t + 50)) t) (\<lambda>_.
           log_io (lit ''Field \"'' @ selector @ lit ''\" filled with value: '' @ val @ lit '' (valid).''))))
          (\<lambda>error.
             io_bind (log_io (lit ''Error filling field '' @ selector @ lit '': '' @ err_message error)) (\<lambda>_.
             io_throw error)))
       (\<lambda>_. fill_loop env rest)"

definition fillFormFields :: "env \<Rightarrow> form_data \<Rightarrow> unit io" where
  "fillFormFields env formData =
     io_bind (log_io (lit ''Filling form fields...'')) (\<lambda>_. fill_loop env formData)"

section \<open>Waiting for the form\<close>

text \<open>
  \<open>ensureFormLoaded\<close> (lines 113--126); \<open>allSelectors\<close> is
  \<open>Object.values(config.selectors)\<close>.
\<close>

definition allSelectors :: "js_string list" where
  "allSelectors =
     [name (selectors config), email (selectors config), phone (selectors config),
      company (selectors config), employees (selectors config), submitButton (selectors config)]"

fun wait_loop :: "env \<Rightarrow> js_string list \<Rightarrow> unit io" where
  "wait_loop env [] = io_return ()"
| "wait_loop env (selector # rest) =
     io_bind (perform env (WaitForSelector selector True 20000)) (\<lambda>_. wait_loop env rest)"

definition ensureFormLoaded :: "env \<Rightarrow> unit io" where
  "ensureFormLoaded env =
     io_bind (log_io (lit ''Ensuring all form fields are loaded...'')) (\<lambda>_.
     io_catch
       (io_bind (perform env (WaitForSelector (lit ''body'') False 30000)) (\<lambda>_.
        io_bind (wait_loop env allSelectors) (\<lambda>_.
        log_io (lit ''All form fields loaded successfully.''))))
       (\<lambda>error.
          io_bind (log_io (lit ''Error ensuring form loaded: '' @ err_message error)) (\<lambda>_.
          io_throw error)))"

section \<open>Clicking with retries\<close>

text \<open>\<open>retryClick\<close> (lines 163--179) and the four lines it logs.\<close>

definition msg_attempt :: "nat \<Rightarrow> js_string \<Rightarrow> js_string" where
  "msg_attempt attempt selector =
     lit ''Attempt '' @ decimal attempt @ lit '': Clicking on Request a call back button ('' @ selector @ lit '').''"

definition msg_success :: "nat \<Rightarrow> js_string \<Rightarrow> js_string" where
  "msg_success attempt selector =
     lit ''Click successful on attempt '' @ decimal attempt @ lit '' for '' @ selector @ lit '' .''"

definition msg_failed :: "nat \<Rightarrow> js_string \<Rightarrow> js_error \<Rightarrow> js_string" where
  "msg_failed attempt selector error =
     lit ''Attempt '' @ decimal attempt @ lit '' failed for '' @ selector @ lit '': '' @ err_message error"

definition msg_all_failed :: "nat \<Rightarrow> js_string \<Rightarrow> js_string" where
  "msg_all_failed retries selector =
     lit ''All '' @ decimal retries @ lit '' attempts to click '' @ selector @ lit '' failed.''"

text \<open>
  The loop \<open>for (attempt = 1; attempt <= retries; attempt++)\<close>, entered at \<open>attempt\<close>.  A
  successful click returns from the function; a failed attempt other than the last goes
  on with the next value of \<open>attempt\<close> at once.
\<close>

function retryClick_from :: "env \<Rightarrow> js_string \<Rightarrow> nat \<Rightarrow> nat \<Rightarrow> unit io" where
  "retryClick_from env selector retries attempt =
     (if attempt \<le> retries
      then io_catch
             (io_bind (log_io (msg_attempt attempt selector)) (\<lambda>_.
              io_bind (perform env (WaitForSelector selector True 10000)) (\<lambda>_.
              io_bind (perform env (Click selector)) (\<lambda>_.
              log_io (msg_success attempt selector)))))
             (\<lambda>error.
                io_bind (log_io (msg_failed attempt selector error)) (\<lambda>_.
                if attempt = retries
                then io_bind (log_io (msg_all_failed retries selector)) (\<lambda>_.
                     io_throw error)
                else retryClick_from env selector retries (attempt + 1)))
      else io_return ())"
  by pat_completeness auto
termination
  by (relation "measure (\<lambda>(env, selector, retries, attempt). Suc retries - attempt)") auto

declare retryClick_from.simps [simp del]

definition retryClick :: "env \<Rightarrow> js_string \<Rightarrow> nat \<Rightarrow> unit io" where
  "retryClick env selector retries = retryClick_from env selector retries 1"

section \<open>Detecting success\<close>

text \<open>
  \<open>validateThankYouPageContent\<close> (lines 187--212).  \<open>page.url()\<close> does not throw;
  \<open>page.evaluate\<close> may.  A screenshot goes to the path built from the directory, a prefix
  and \<open>Date.now()\<close>.  The \<open>try\<close> block either returns true from the function
  (\<open>Some True\<close>) or falls through (\<open>None\<close>).
\<close>

definition page_url :: "env \<Rightarrow> js_string io" where
  "page_url env t = (Inr (pageUrl env t), t @ [PageUrl])"

definition evaluate_innerText :: "env \<Rightarrow> js_string io" where
  "evaluate_innerText env t =
     (case fails env t Evaluate of
        Some e \<Rightarrow> (Inl e, t @ [Evaluate])
      | None \<Rightarrow> (Inr (innerText env t), t @ [Evaluate]))"

definition date_now :: "env \<Rightarrow> nat io" where
  "date_now env t = (Inr (dateNow env t), t)"

definition screenshot :: "env \<Rightarrow> js_string \<Rightarrow> js_string \<Rightarrow> js_string io" where
  "screenshot env screenshotsDir prefix =
     io_bind (date_now env) (\<lambda>now.
     io_bind (perform env (Screenshot (path_join screenshotsDir (prefix @ decimal now @ lit ''.png'')))) (\<lambda>_.
     io_return (path_join screenshotsDir (prefix @ decimal now @ lit ''.png''))))"

definition validateThankYouPageContent :: "env \<Rightarrow> js_string \<Rightarrow> bool io" where
  "validateThankYouPageContent env screenshotsDir =
     io_bind (page_url env) (\<lambda>currentURL.
     io_bind (log_io (lit ''Current URL: '' @ currentURL)) (\<lambda>_.
     if js_includes currentURL (thankYouPage config)
     then io_bind (log_io (lit ''Thank you page reached successfully.'')) (\<lambda>_. io_return True)
     else
       io_bind
         (io_catch
            (io_bind (evaluate_innerText env) (\<lambda>pageContent.
             if list_all (\<lambda>text. js_includes pageContent text) (thankYouText config)
             then io_bind (log_io (lit ''Thank you page content validated successfully.'')) (\<lambda>_.
                  io_return (Some True))
             else io_bind (log_io (lit ''Content validation failed. Some expected text is missing.'')) (\<lambda>_.
                  io_return None)))
            (\<lambda>error.
               io_bind (log_io (lit ''Error validating page content:'')) (\<lambda>_.
               io_throw (JsError (lit ''Error'') None (lit ''Page validation encountered an issue, process terminated.'')))))
         (\<lambda>returned.
            case returned of
              Some b \<Rightarrow> io_return b
            | None \<Rightarrow>
                io_bind (screenshot env screenshotsDir (lit ''validation_failed_'')) (\<lambda>errorScreenshotPath.
                io_bind (log_io (lit ''Screenshot saved for validation failure: '' @ errorScreenshotPath)) (\<lambda>_.
                io_return False)))))"

section \<open>Submitting\<close>

text \<open>
  \<open>submitFormAndValidate\<close> (lines 134--154).  The call at line 146 passes the message
  of the error as a second argument, which \<open>logWithTimestamp\<close> ignores.
\<close>

definition submitFormAndValidate :: "env \<Rightarrow> js_string \<Rightarrow> js_string \<Rightarrow> bool io" where
  "submitFormAndValidate env submitButtonSelector screenshotsDir =
     io_bind (log_io (lit ''Preparing to submit the form...'')) (\<lambda>_.
     io_bind (screenshot env screenshotsDir (lit ''before_submission_'')) (\<lambda>screenshotPath.
     io_bind (log_io (lit ''Screenshot captured before form submission.'')) (\<lambda>_.
     io_bind
       (io_catch
          (io_bind (retryClick env submitButtonSelector 3) (\<lambda>_.
           io_bind (log_io (lit ''Form submitted, waiting for navigation...'')) (\<lambda>_.
           io_bind (log_io (lit ''-----------------------------------------------------------------------------'')) (\<lambda>_.
           perform env (WaitForNavigation 30000)))))
          (\<lambda>error.
             io_bind (log_io (lit ''Error during form submission:'')) (\<lambda>_.
             io_bind (screenshot env screenshotsDir (lit ''submission_error_'')) (\<lambda>errorScreenshotPath.
             io_bind (log_io (lit ''Error screenshot saved: '' @ errorScreenshotPath)) (\<lambda>_.
             io_throw error)))))
       (\<lambda>_. validateThankYouPageContent env screenshotsDir))))"

section \<open>The run\<close>

text \<open>
  How \<open>runAutomation\<close> ends when it does not throw: it returned early after a failed
  validation, it registered the ENTER prompt and returned, or it called \<open>process.exit\<close>.
\<close>

datatype run_end = Stopped | AwaitingEnter | Exited nat

text \<open>
  The call of the validator as a step of the run, the \<open>forEach\<close> that logs the errors,
  the page \<open>(await browser.pages())[0] || await browser.newPage()\<close>, and
  \<open>process.exit\<close>, which does not return.
\<close>

definition validate_io :: "form_data \<Rightarrow> js_string list io" where
  "validate_io formData t = (case validateFormData formData t of (errors, t') \<Rightarrow> (Inr errors, t'))"

fun log_each :: "js_string list \<Rightarrow> unit io" where
  "log_each [] = io_return ()"
| "log_each (error # rest) = io_bind (log_io error) (\<lambda>_. log_each rest)"

definition first_page :: "env \<Rightarrow> unit io" where
  "first_page env =
     io_bind (perform env Pages) (\<lambda>_.
     (\<lambda>t. if 0 < openPages env t then io_return () t else perform env NewPage t))"

definition process_exit :: "nat \<Rightarrow> run_end io" where
  "process_exit n t = (Inr (Exited n), t @ [ProcessExit n])"

text \<open>
  \<open>runAutomation\<close> (lines 219--277), with the form data it builds at lines 233--238
  taken as a parameter; \<open>runAutomation\<close> itself is the instance at \<open>formData0\<close>.
\<close>

definition runAutomationWith :: "env \<Rightarrow> form_data \<Rightarrow> run_end io" where
  "runAutomationWith env formData =
     io_bind (log_io (lit ''Starting automation...'')) (\<lambda>_.
     io_bind (perform env Launch) (\<lambda>_.
     io_bind (first_page env) (\<lambda>_.
     io_catch
       (io_bind (perform env (Goto (formUrl config))) (\<lambda>_.
        io_bind (log_io (lit ''Navigated to form URL.'')) (\<lambda>_.
        io_bind (ensureDirectoryExists env (path_join (dirname env) (lit ''screenshots''))) (\<lambda>_.
        io_bind (ensureFormLoaded env) (\<lambda>_.
        io_bind (validate_io formData) (\<lambda>validationErrors.
        if length validationErrors > 0
        then io_bind (log_io (lit ''Form validation failed. Errors:'')) (\<lambda>_.
             io_bind (log_each validationErrors) (\<lambda>_.
             io_return Stopped))
        else
          io_bind (fillFormFields env formData) (\<lambda>_.
          io_bind (log_io (lit ''Changing the number of employees to 51-500...'')) (\<lambda>_.
          io_bind (perform env (SelectOption (employees (selectors config)) (lit ''51-500''))) (\<lambda>_.
          io_bind (submitFormAndValidate env (submitButton (selectors config))
                     (path_join (dirname env) (lit ''screenshots''))) (\<lambda>submissionSuccess.
          io_bind (if submissionSuccess
                   then log_io (lit ''Form successfully submitted and validated.'')
                   else log_io (lit ''Form submission failed.'')) (\<lambda>_.
          io_bind (log_io (lit ''Automation completed. Press ENTER to exit and close the browser.'')) (\<lambda>_.
          io_bind (perform env (Question (lit ''Press ENTER to exit and close the browser...''))) (\<lambda>_.
          io_return AwaitingEnter)))))))))))))
       (\<lambda>error.
          io_bind (log_io (lit ''Error during automation: '' @ err_message error)) (\<lambda>_.
          io_bind (perform env BrowserClose) (\<lambda>_.
          process_exit 1))))))"

definition formData0 :: form_data where
  "formData0 =
     [(name (selectors config), lit ''Eden Oved''),
      (email (selectors config), lit ''edenoved.swe@gmail.com''),
      (phone (selectors config), lit ''+972 54-324-1555''),
      (company (selectors config), lit ''Jones Software'')]"

definition runAutomation :: "env \<Rightarrow> run_end io" where
  "runAutomation env = runAutomationWith env formData0"

text \<open>
  The script (lines 279--283): \<open>runAutomation().catch(...)\<close>, then the ENTER callback if it was registered
  and ENTER is pressed.  The rejection handler logs and then reads the identifier
  \<open>browser\<close>, which is local to \<open>runAutomation\<close> and not in scope at module level: the read
  throws a ReferenceError before \<open>close\<close> or \<open>process.exit\<close> can be called.
\<close>

datatype outcome = Finished | Pending | ExitCode nat | Rejected js_error

definition enter_callback :: "env \<Rightarrow> trace \<Rightarrow> outcome \<times> trace" where
  "enter_callback env t =
     (case perform env BrowserClose (t @ [RlClose]) of
        (Inl e, t') \<Rightarrow> (Rejected e, t')
      | (Inr _, t') \<Rightarrow> (Finished, logWithTimestamp (lit ''Browser closed. Exiting script.'') t'))"

definition script :: "env \<Rightarrow> form_data \<Rightarrow> outcome \<times> trace" where
  "script env formData =
     (case runAutomationWith env formData [] of
        (Inl error, t) \<Rightarrow>
          (Rejected (JsError (lit ''ReferenceError'') None (lit ''browser is not defined'')),
           logWithTimestamp (lit ''Unhandled error: '' @ err_message error) t)
      | (Inr Stopped, t) \<Rightarrow> (Pending, t)
      | (Inr (Exited n), t) \<Rightarrow> (ExitCode n, t)
      | (Inr AwaitingEnter, t) \<Rightarrow>
          if enterPressed env t then enter_callback env t else (Pending, t))"

definition main :: "env \<Rightarrow> outcome \<times> trace" where
  "main env = script env formData0"

section \<open>Notions used to state the properties\<close>

text \<open>
  \<open>appends P m\<close>: whatever the trace before, \<open>m\<close> only adds events at its end, and the
  events added satisfy \<open>P\<close>.
\<close>

definition appends :: "(trace \<Rightarrow> bool) \<Rightarrow> 'a io \<Rightarrow> bool" where
  "appends P m = (\<forall>t. \<exists>es. snd (m t) = t @ es \<and> P es)"

definition closed :: "(trace \<Rightarrow> bool) \<Rightarrow> bool" where
  "closed P = (P [] \<and> (\<forall>a b. P a \<longrightarrow> P b \<longrightarrow> P (a @ b)))"

text \<open>The number of click attempts in a trace: each attempt waits for the selector once.\<close>

definition attempts :: "js_string \<Rightarrow> trace \<Rightarrow> nat" where
  "attempts selector es = length (filter (\<lambda>ev. ev = WaitForSelector selector True 10000) es)"


text \<open>
  The page operations of filling and submitting: typing, selecting, clicking, taking a
  screenshot, waiting for the navigation, and reading the URL and the text of the
  resulting page.
\<close>

fun is_fill_or_submit :: "event \<Rightarrow> bool" where
  "is_fill_or_submit (TypeText s v d) = True"
| "is_fill_or_submit (SelectOption s v) = True"
| "is_fill_or_submit (Click s) = True"
| "is_fill_or_submit (Screenshot p) = True"
| "is_fill_or_submit (WaitForNavigation n) = True"
| "is_fill_or_submit PageUrl = True"
| "is_fill_or_submit Evaluate = True"
| "is_fill_or_submit ev = False"

definition validation_passed :: event where
  "validation_passed = Log (lit ''All fields passed validation successfully ! '')"

text \<open>Every fill or submit operation of the trace comes after the line that validation passed.\<close>

definition guarded :: "trace \<Rightarrow> bool" where
  "guarded es = (\<forall>i < length es. is_fill_or_submit (es ! i) \<longrightarrow> (\<exists>j < i. es ! j = validation_passed))"


text \<open>
  Each step of the click loop in the events \<open>es\<close> it adds: a click that does not fail is
  followed by the success line alone and the loop returns; a wait that does not fail is
  followed by the click; a wait or click that fails is followed by the failure line and
  then either by the final line and the throw of that error, or at once by the next
  attempt.
\<close>

definition retry_steps :: "env \<Rightarrow> js_string \<Rightarrow> nat \<Rightarrow> trace \<Rightarrow> (js_error + unit) \<Rightarrow> trace \<Rightarrow> bool" where
  "retry_steps env selector k t r es =
     ((\<forall>es' rest. es = es' @ Click selector # rest \<and> fails env (t @ es') (Click selector) = None \<longrightarrow>
         rest = [Log (msg_success k selector)] \<and> r = Inr ()) \<and>
      (\<forall>es' rest. es = es' @ WaitForSelector selector True 10000 # rest \<and>
         fails env (t @ es') (WaitForSelector selector True 10000) = None \<longrightarrow>
         (\<exists>rest'. rest = Click selector # rest')))"




section \<open>Concrete inputs\<close>

text \<open>
  \<open>String.prototype.trim\<close> removes leading and trailing WhiteSpace and LineTerminator
  code units, the class \<open>\s\<close>.
\<close>

definition trim :: "js_string \<Rightarrow> js_string" where
  "trim s = rev (dropWhile is_space (rev (dropWhile is_space s)))"

text \<open>The form data of the script without its name entry.\<close>

definition formData_missing_name :: form_data where
  "formData_missing_name =
     [(email (selectors config), lit ''edenoved.swe@gmail.com''),
      (phone (selectors config), lit ''+972 54-324-1555''),
      (company (selectors config), lit ''Jones Software'')]"

text \<open>The form data of the script with a line feed in front of the name.\<close>

definition formData_leading_newline :: form_data where
  "formData_leading_newline =
     [(name (selectors config), 0x000A # lit ''Eden Oved''),
      (email (selectors config), lit ''edenoved.swe@gmail.com''),
      (phone (selectors config), lit ''+972 54-324-1555''),
      (company (selectors config), lit ''Jones Software'')]"



text \<open>The form data of the failure scenario: the email has no \<open>@\<close>.\<close>

definition formData_no_at :: form_data where
  "formData_no_at =
     [(name (selectors config), lit ''Eden Oved''),
      (email (selectors config), lit ''no-at-symbol''),
      (phone (selectors config), lit ''+972 54-324-1555''),
      (company (selectors config), lit ''Jones Software'')]"

text \<open>
  Environments.  In \<open>env0\<close> every call succeeds and the page after the submission is the
  thank-you page.  The others differ from it in one respect each.
\<close>

definition thankYouUrl :: js_string where
  "thankYouUrl = lit ''https://testsite.getjones.com/ExampleForm/thank-you.html''"

definition env0 :: env where
  "env0 = \<lparr> fails = (\<lambda>t ev. None),
            pageUrl = (\<lambda>t. thankYouUrl),
            innerText = (\<lambda>t. lit ''Thank you!''),
            dateNow = (\<lambda>t. 1700000000000),
            random100 = (\<lambda>t. 42),
            openPages = (\<lambda>t. 1),
            enterPressed = (\<lambda>t. True),
            dirname = lit ''/app'' \<rparr>"


definition closed_error :: js_error where
  "closed_error = JsError (lit ''Error'') None (lit ''Protocol error: Target closed'')"




text \<open>
  The page stays on the form URL and its text has only the first of the two fragments;
  in the second environment screenshots cannot be taken either.
\<close>

definition env_missing_text :: env where
  "env_missing_text = env0 \<lparr> pageUrl := (\<lambda>t. formUrl config) \<rparr>"

definition env_no_screenshot :: env where
  "env_no_screenshot =
     env_missing_text \<lparr> fails := (\<lambda>t ev. case ev of Screenshot p \<Rightarrow> Some closed_error | _ \<Rightarrow> None) \<rparr>"

text \<open>The page stays on the form URL and its text cannot be read.\<close>

definition env_text_unreadable :: env where
  "env_text_unreadable =
     env_missing_text \<lparr> fails := (\<lambda>t ev. case ev of Evaluate \<Rightarrow> Some closed_error | _ \<Rightarrow> None) \<rparr>"

text \<open>The browser is launched, and listing its pages fails.\<close>

definition env_pages_fail :: env where
  "env_pages_fail =
     env0 \<lparr> fails := (\<lambda>t ev. case ev of Pages \<Rightarrow> Some closed_error | _ \<Rightarrow> None) \<rparr>"

section \<open>String literals\<close>

lemma unat_of_char: "unat (of_char c :: code_unit) = of_char c"
proof -
  have "(of_char c :: nat) < 65536"
    using nat_of_char_less_256 [of c] by linarith
  moreover have "(of_char c :: code_unit) = of_nat (of_char c)"
    by (simp add: of_nat_of_char)
  ultimately show ?thesis
    by (simp add: unat_of_nat take_bit_nat_eq_self)
qed

lemma of_char_code_unit_eq [simp]: "(of_char c :: code_unit) = of_char d \<longleftrightarrow> c = d"
  by (metis unat_of_char of_char_eq_iff)

lemma lit_eq_iff [simp]: "lit a = lit b \<longleftrightarrow> a = b"
  unfolding lit_def by (simp add: inj_map_eq_map inj_on_def)

section \<open>What the two regular expressions accept\<close>

lemma star_iter_Chr:
  "set (star_iter (ends (Chr P) s) n i) =
     {j. i \<le> j \<and> j \<le> i + n \<and> j \<le> max i (length s) \<and> (\<forall>k. i \<le> k \<and> k < j \<longrightarrow> P (s ! k))}"
proof (induction n arbitrary: i)
  case 0
  then show ?case by auto
next
  case (Suc n)
  show ?case
  proof (cases "i < length s \<and> P (s ! i)")
    case True
    have split: "(\<forall>k. i \<le> k \<and> k < j \<longrightarrow> P (s ! k)) \<longleftrightarrow> (\<forall>k. Suc i \<le> k \<and> k < j \<longrightarrow> P (s ! k))" if "i < j" for j
      using True by (metis Suc_leI le_neq_implies_less Suc_leD)
    have "set (star_iter (ends (Chr P) s) (Suc n) i) = insert i (set (star_iter (ends (Chr P) s) n (Suc i)))"
      using True by simp
    also have "\<dots> = {j. i \<le> j \<and> j \<le> i + Suc n \<and> j \<le> max i (length s) \<and> (\<forall>k. i \<le> k \<and> k < j \<longrightarrow> P (s ! k))}"
    proof (rule set_eqI)
      fix j
      show "j \<in> insert i (set (star_iter (ends (Chr P) s) n (Suc i))) \<longleftrightarrow>
            j \<in> {j. i \<le> j \<and> j \<le> i + Suc n \<and> j \<le> max i (length s) \<and> (\<forall>k. i \<le> k \<and> k < j \<longrightarrow> P (s ! k))}"
      proof (cases "j = i")
        case True
        then show ?thesis by auto
      next
        case False
        show ?thesis
        proof (cases "i < j")
          case True
          with split[OF True] \<open>i < length s \<and> P (s ! i)\<close> show ?thesis
            unfolding Suc.IH by (simp add: max_def Suc_le_eq)
        next
          case False
          with \<open>j \<noteq> i\<close> show ?thesis unfolding Suc.IH by simp
        qed
      qed
    qed
    finally show ?thesis .
  next
    case False
    have "set (star_iter (ends (Chr P) s) (Suc n) i) = {i}"
      using False by auto
    also have "\<dots> = {j. i \<le> j \<and> j \<le> i + Suc n \<and> j \<le> max i (length s) \<and> (\<forall>k. i \<le> k \<and> k < j \<longrightarrow> P (s ! k))}"
    proof (rule set_eqI)
      fix j
      show "j \<in> {i} \<longleftrightarrow> j \<in> {j. i \<le> j \<and> j \<le> i + Suc n \<and> j \<le> max i (length s) \<and> (\<forall>k. i \<le> k \<and> k < j \<longrightarrow> P (s ! k))}"
      proof (cases "i < j")
        case True
        with False show ?thesis by (auto simp: max_def)
      next
        case False
        then show ?thesis by auto
      qed
    qed
    finally show ?thesis .
  qed
qed

lemma star_iter_nonempty: "star_iter f n i \<noteq> []"
  by (cases n) simp_all

lemma all_space_iff:
  "ends (Seq (Star (Chr P)) Eol) s 0 \<noteq> [] \<longleftrightarrow> list_all P s"
proof -
  have "ends (Seq (Star (Chr P)) Eol) s 0 \<noteq> [] \<longleftrightarrow> length s \<in> set (star_iter (ends (Chr P) s) (length s) 0)"
    by auto
  also have "\<dots> \<longleftrightarrow> (\<forall>k < length s. P (s ! k))"
    unfolding star_iter_Chr by simp
  also have "\<dots> \<longleftrightarrow> list_all P s"
    by (simp add: list_all_length)
  finally show ?thesis .
qed

lemma nonEmptyRegex_at:
  "matches_at nonEmptyRegex s i \<longleftrightarrow> i = 0 \<and> s \<noteq> [] \<and> dot (hd s) \<and> \<not> list_all is_space s"
proof (cases "i = 0")
  case True
  have "ends (Plus (Chr dot)) s 0 \<noteq> [] \<longleftrightarrow> s \<noteq> [] \<and> dot (hd s)"
    by (cases s) (simp_all add: star_iter_nonempty)
  moreover have "ends nonEmptyRegex s 0 \<noteq> [] \<longleftrightarrow>
      ends (Seq (Star (Chr is_space)) Eol) s 0 = [] \<and> ends (Plus (Chr dot)) s 0 \<noteq> []"
    unfolding nonEmptyRegex_def
    by (simp del: ends.simps(4,5,6) add: ends.simps(4)[of Bol] ends.simps(4)[of "NegLook _"])
  ultimately show ?thesis
    using True all_space_iff[of is_space s] unfolding matches_at_def by blast
next
  case False
  then show ?thesis by (simp add: matches_at_def nonEmptyRegex_def)
qed

lemma test_nonEmptyRegex:
  "test nonEmptyRegex v \<longleftrightarrow>
     (let s = ToString v in s \<noteq> [] \<and> dot (hd s) \<and> \<not> list_all is_space s)"
  unfolding test_def Let_def list_ex_iff nonEmptyRegex_at by auto

lemma test_emailRegex: "test emailRegex v \<longleftrightarrow> 0x40 \<in> set (ToString v)"
  unfolding test_def Let_def list_ex_iff matches_at_def emailRegex_def
  by (auto simp: in_set_conv_nth)

section \<open>The validator\<close>

lemma msgs_distinct: "distinct [msg_name, msg_email, msg_phone, msg_company]"
  by (simp add: msg_name_def msg_email_def msg_phone_def msg_company_def)

lemma validation_errors_eq:
  "validation_errors formData =
     (if test nonEmptyRegex (get_prop formData (name (selectors config))) then [] else [msg_name]) @
     (if test emailRegex (get_prop formData (email (selectors config))) then [] else [msg_email]) @
     (if test nonEmptyRegex (get_prop formData (phone (selectors config))) then [] else [msg_phone]) @
     (if test nonEmptyRegex (get_prop formData (company (selectors config))) then [] else [msg_company])"
  by (simp add: validation_errors_def)

lemma test_Undefined: "test nonEmptyRegex Undefined" "\<not> test emailRegex Undefined"
  by (simp_all add: test_nonEmptyRegex test_emailRegex)
     (simp_all add: lit_def dot_def is_space_def is_line_terminator_def)

text \<open>
  An absent name, phone or company is never reported; an absent email always is.
\<close>

lemma absent_field_not_reported:
  "map_of formData (name (selectors config)) = None \<Longrightarrow> msg_name \<notin> set (validation_errors formData)"
  "map_of formData (phone (selectors config)) = None \<Longrightarrow> msg_phone \<notin> set (validation_errors formData)"
  "map_of formData (company (selectors config)) = None \<Longrightarrow> msg_company \<notin> set (validation_errors formData)"
  "map_of formData (email (selectors config)) = None \<Longrightarrow> msg_email \<in> set (validation_errors formData)"
  using msgs_distinct by (auto simp: validation_errors_eq get_prop_def test_Undefined)

text \<open>
  C2.  A form data object without the name entry: the property read gives \<open>undefined\<close>,
  \<open>test\<close> coerces it to the string \<open>undefined\<close>, which the non-empty pattern accepts.
  The validator returns the empty error list and logs that all fields passed; no message
  is attributed to the missing name.
\<close>

theorem validateFormData_missing_name_accepted:
  "map_of formData_missing_name (name (selectors config)) = None \<and>
   validateFormData formData_missing_name [] =
     ([], [Log (lit ''All fields passed validation successfully ! ''),
           Log (lit ''-----------------------------------------------------------------------------'')])"
  by (simp add: validateFormData_def formData_missing_name_def validation_errors_def config_def
        test_nonEmptyRegex test_emailRegex get_prop_def logWithTimestamp_def)
     (simp add: lit_def dot_def is_space_def is_line_terminator_def)

text \<open>
  C8.  A name that starts with a line feed is non-empty after trimming, and the other
  fields are those of the script, yet the validator reports that the name is empty:
  after the lookahead, \<open>.+\<close> must match at position 0, and \<open>.\<close> does not match a line
  terminator.
\<close>

theorem validateFormData_leading_newline_rejected:
  "trim (0x000A # lit ''Eden Oved'') = lit ''Eden Oved'' \<and>
   validateFormData formData_leading_newline [] = ([msg_name], [])"
  by (simp add: validateFormData_def formData_leading_newline_def validation_errors_def config_def
        test_nonEmptyRegex test_emailRegex get_prop_def logWithTimestamp_def)
     (simp add: lit_def dot_def is_space_def is_line_terminator_def trim_def msg_name_def)






lemma check_field_symbol:
  "lookup_field entries key = FSymbol d \<Longrightarrow>
   check_field (ArgObject entries) r key msg errors =
     Inl (TypeError (lit ''Cannot convert a Symbol value to a string''))"
  by (simp add: check_field_def test_field_def)








lemma validation_errors_formData0: "validation_errors formData0 = []"
  by (simp add: formData0_def validation_errors_def config_def
        test_nonEmptyRegex test_emailRegex get_prop_def)
     (simp add: lit_def dot_def is_space_def is_line_terminator_def)



section \<open>Traces only grow\<close>

lemma appendsI: "(\<And>t. \<exists>es. snd (m t) = t @ es \<and> P es) \<Longrightarrow> appends P m"
  by (simp add: appends_def)

lemma appendsD: "appends P m \<Longrightarrow> \<exists>es. snd (m t) = t @ es \<and> P es"
  by (simp add: appends_def)

lemma closed_append: "closed P \<Longrightarrow> P a \<Longrightarrow> P b \<Longrightarrow> P (a @ b)"
  by (simp add: closed_def)

lemma appends_return: "closed P \<Longrightarrow> appends P (io_return v)"
  by (simp add: appends_def io_return_def closed_def)

lemma appends_throw: "closed P \<Longrightarrow> appends P (io_throw e)"
  by (simp add: appends_def io_throw_def closed_def)

lemma appends_log: "P [Log m] \<Longrightarrow> appends P (log_io m)"
  by (simp add: appends_def log_io_def logWithTimestamp_def)

lemma appends_perform: "P [ev] \<Longrightarrow> appends P (perform env ev)"
  by (simp add: appends_def perform_def split: option.splits)

lemma appends_bind:
  assumes "closed P" and m: "appends P m" and f: "\<And>v. appends P (f v)"
  shows "appends P (io_bind m f)"
proof (rule appendsI)
  fix t
  from appendsD [OF m, of t] obtain es where es: "snd (m t) = t @ es" "P es" by blast
  show "\<exists>es. snd (io_bind m f t) = t @ es \<and> P es"
  proof (cases "m t")
    case (Pair r t')
    with es have t': "t' = t @ es" by simp
    show ?thesis
    proof (cases r)
      case (Inl e)
      with Pair t' es show ?thesis by (auto simp: io_bind_def)
    next
      case (Inr v)
      from appendsD [OF f, of v t'] obtain es' where es': "snd (f v t') = t' @ es'" "P es'" by blast
      with Pair Inr t' have "snd (io_bind m f t) = t @ (es @ es')" by (simp add: io_bind_def)
      moreover have "P (es @ es')" using assms(1) es(2) es'(2) by (rule closed_append)
      ultimately show ?thesis by blast
    qed
  qed
qed

lemma appends_catch:
  assumes "closed P" and m: "appends P m" and h: "\<And>e. appends P (h e)"
  shows "appends P (io_catch m h)"
proof (rule appendsI)
  fix t
  from appendsD [OF m, of t] obtain es where es: "snd (m t) = t @ es" "P es" by blast
  show "\<exists>es. snd (io_catch m h t) = t @ es \<and> P es"
  proof (cases "m t")
    case (Pair r t')
    with es have t': "t' = t @ es" by simp
    show ?thesis
    proof (cases r)
      case (Inr v)
      with Pair t' es show ?thesis by (auto simp: io_catch_def)
    next
      case (Inl e)
      from appendsD [OF h, of e t'] obtain es' where es': "snd (h e t') = t' @ es'" "P es'" by blast
      with Pair Inl t' have "snd (io_catch m h t) = t @ (es @ es')" by (simp add: io_catch_def)
      moreover have "P (es @ es')" using assms(1) es(2) es'(2) by (rule closed_append)
      ultimately show ?thesis by blast
    qed
  qed
qed

lemma appends_if:
  "(c \<Longrightarrow> appends P a) \<Longrightarrow> (\<not> c \<Longrightarrow> appends P b) \<Longrightarrow> appends P (if c then a else b)"
  by simp

lemma closed_list_all: "closed (list_all Q)"
  by (simp add: closed_def)

lemma closed_True: "closed (\<lambda>es. True)"
  by (simp add: closed_def)

lemma appends_page_url: "P [PageUrl] \<Longrightarrow> appends P (page_url env)"
  by (simp add: appends_def page_url_def)

lemma appends_evaluate: "P [Evaluate] \<Longrightarrow> appends P (evaluate_innerText env)"
  by (simp add: appends_def evaluate_innerText_def split: option.splits)

lemma appends_date_now: "closed P \<Longrightarrow> appends P (date_now env)"
  by (simp add: appends_def date_now_def closed_def)

lemma appends_screenshot:
  "closed P \<Longrightarrow> (\<And>p. P [Screenshot p]) \<Longrightarrow> appends P (screenshot env dir prefix)"
  unfolding screenshot_def
  by (intro appends_bind appends_date_now appends_perform appends_return)

lemma appends_retryClick_from:
  assumes "closed P" "\<And>m. P [Log m]" "P [WaitForSelector selector True 10000]" "P [Click selector]"
  shows "appends P (retryClick_from env selector retries attempt)"
  using assms
proof (induction env selector retries attempt rule: retryClick_from.induct)
  case (1 env selector retries attempt)
  show ?case
    apply (subst retryClick_from.simps)
    apply (intro appends_if appends_catch appends_bind appends_log appends_perform appends_return appends_throw 1)
    apply (simp_all add: 1)
    done
qed


section \<open>The click loop\<close>

lemmas io_defs = io_bind_def io_catch_def io_return_def io_throw_def log_io_def logWithTimestamp_def
  perform_def page_url_def evaluate_innerText_def date_now_def screenshot_def

lemma retry_wait_fails:
  assumes "attempt \<le> retries"
    and "fails env (t @ [Log (msg_attempt attempt selector)]) (WaitForSelector selector True 10000) = Some e"
  shows "retryClick_from env selector retries attempt t =
     (if attempt = retries
      then (Inl e, t @ [Log (msg_attempt attempt selector), WaitForSelector selector True 10000,
                        Log (msg_failed attempt selector e), Log (msg_all_failed retries selector)])
      else retryClick_from env selector retries (attempt + 1)
             (t @ [Log (msg_attempt attempt selector), WaitForSelector selector True 10000,
                   Log (msg_failed attempt selector e)]))"
  using assms by (subst retryClick_from.simps) (simp add: io_defs)

lemma retry_click_fails:
  assumes "attempt \<le> retries"
    and "fails env (t @ [Log (msg_attempt attempt selector)]) (WaitForSelector selector True 10000) = None"
    and "fails env (t @ [Log (msg_attempt attempt selector), WaitForSelector selector True 10000]) (Click selector) = Some e"
  shows "retryClick_from env selector retries attempt t =
     (if attempt = retries
      then (Inl e, t @ [Log (msg_attempt attempt selector), WaitForSelector selector True 10000, Click selector,
                        Log (msg_failed attempt selector e), Log (msg_all_failed retries selector)])
      else retryClick_from env selector retries (attempt + 1)
             (t @ [Log (msg_attempt attempt selector), WaitForSelector selector True 10000, Click selector,
                   Log (msg_failed attempt selector e)]))"
  using assms by (subst retryClick_from.simps) (simp add: io_defs)

lemma retry_succeeds:
  assumes "attempt \<le> retries"
    and "fails env (t @ [Log (msg_attempt attempt selector)]) (WaitForSelector selector True 10000) = None"
    and "fails env (t @ [Log (msg_attempt attempt selector), WaitForSelector selector True 10000]) (Click selector) = None"
  shows "retryClick_from env selector retries attempt t =
     (Inr (), t @ [Log (msg_attempt attempt selector), WaitForSelector selector True 10000, Click selector,
                   Log (msg_success attempt selector)])"
  using assms by (subst retryClick_from.simps) (simp add: io_defs)







lemma retry_steps_Nil: "retry_steps env selector k t r []"
  by (simp add: retry_steps_def)



















section \<open>The success detector\<close>

text \<open>
  C10.  When the URL of the page contains the success fragment, the detector returns
  true, and all it does is read the URL and write two log lines: the text of the page
  is not read and no screenshot is taken.
\<close>

theorem url_success:
  "js_includes (pageUrl env t) (thankYouPage config) \<Longrightarrow>
   validateThankYouPageContent env screenshotsDir t =
     (Inr True, t @ [PageUrl, Log (lit ''Current URL: '' @ pageUrl env t),
                     Log (lit ''Thank you page reached successfully.'')])"
  by (simp add: validateThankYouPageContent_def io_defs)

lemma includes_thankYouUrl: "js_includes thankYouUrl (thankYouPage config)"
  by (simp add: thankYouUrl_def config_def lit_def)

lemma not_includes_formUrl: "\<not> js_includes (formUrl config) (thankYouPage config)"
  by (simp add: config_def lit_def)

lemma text_fragments_missing:
  "\<not> list_all (\<lambda>text. js_includes (lit ''Thank you!'') text) (thankYouText config)"
  by (simp add: config_def lit_def)

text \<open>The thank-you page of the site.\<close>

theorem url_success_witness:
  "js_includes (pageUrl env0 []) (thankYouPage config) \<and>
   validateThankYouPageContent env0 (lit ''/app/screenshots'') [] =
     (Inr True, [PageUrl, Log (lit ''Current URL: '' @ thankYouUrl),
                 Log (lit ''Thank you page reached successfully.'')])"
proof -
  have h: "js_includes (pageUrl env0 []) (thankYouPage config)"
    by (simp add: env0_def includes_thankYouUrl)
  show ?thesis
    using h url_success [OF h, of "lit ''/app/screenshots''"] by (simp add: env0_def)
qed

text \<open>
  C6.  When the URL does not contain the success fragment and reading the text of the
  page throws, the detector throws an error of its own; it does not return false, and it
  takes no screenshot.
\<close>

theorem content_read_throws:
  "\<not> js_includes (pageUrl env t) (thankYouPage config) \<Longrightarrow>
   fails env (t @ [PageUrl, Log (lit ''Current URL: '' @ pageUrl env t)]) Evaluate = Some e \<Longrightarrow>
   validateThankYouPageContent env screenshotsDir t =
     (Inl (JsError (lit ''Error'') None (lit ''Page validation encountered an issue, process terminated.'')),
      t @ [PageUrl, Log (lit ''Current URL: '' @ pageUrl env t), Evaluate,
           Log (lit ''Error validating page content:'')])"
  by (simp add: validateThankYouPageContent_def io_defs)

text \<open>The page stays on the form and its text cannot be read.\<close>

theorem content_read_throws_witness:
  "\<not> js_includes (pageUrl env_text_unreadable []) (thankYouPage config) \<and>
   fails env_text_unreadable [PageUrl, Log (lit ''Current URL: '' @ formUrl config)] Evaluate = Some closed_error \<and>
   validateThankYouPageContent env_text_unreadable (lit ''/app/screenshots'') [] =
     (Inl (JsError (lit ''Error'') None (lit ''Page validation encountered an issue, process terminated.'')),
      [PageUrl, Log (lit ''Current URL: '' @ formUrl config), Evaluate,
       Log (lit ''Error validating page content:'')])"
proof -
  have h1: "\<not> js_includes (pageUrl env_text_unreadable []) (thankYouPage config)"
    by (simp add: env_text_unreadable_def env_missing_text_def env0_def not_includes_formUrl)
  have h2: "fails env_text_unreadable ([] @ [PageUrl, Log (lit ''Current URL: '' @ pageUrl env_text_unreadable [])]) Evaluate = Some closed_error"
    by (simp add: env_text_unreadable_def)
  show ?thesis
    using h1 h2 content_read_throws [OF h1 h2, of "lit ''/app/screenshots''"]
    by (simp add: env_text_unreadable_def env_missing_text_def env0_def)
qed

text \<open>
  C3, as the code has it.  If the URL contains the success fragment the detector returns
  true.  Otherwise, when the text of the page can be read, it returns true exactly when
  every required fragment occurs in the text; when one is missing it takes the
  validation-failed screenshot and returns false exactly when that screenshot succeeds:
  an error of the screenshot is thrown instead.
\<close>

theorem detector_decision:
  "let url = pageUrl env t;
       t1 = t @ [PageUrl, Log (lit ''Current URL: '' @ url)];
       t2 = t1 @ [Evaluate, Log (lit ''Content validation failed. Some expected text is missing.'')];
       shot = Screenshot (path_join screenshotsDir (lit ''validation_failed_'' @ decimal (dateNow env t2) @ lit ''.png''));
       present = list_all (\<lambda>text. js_includes (innerText env t1) text) (thankYouText config);
       r = fst (validateThankYouPageContent env screenshotsDir t)
   in (js_includes url (thankYouPage config) \<longrightarrow> r = Inr True) \<and>
      (\<not> js_includes url (thankYouPage config) \<and> fails env t1 Evaluate = None \<longrightarrow>
         (r = Inr True \<longleftrightarrow> present) \<and>
         (\<not> present \<longrightarrow> (r = Inr False \<longleftrightarrow> fails env t2 shot = None) \<and>
                        (\<forall>e. fails env t2 shot = Some e \<longrightarrow> r = Inl e)))"
  by (auto simp add: validateThankYouPageContent_def io_defs Let_def split: option.splits)

text \<open>The page stays on the form and shows the first fragment only: the detector returns false.\<close>

theorem detector_decision_witness:
  "\<not> js_includes (pageUrl env_missing_text []) (thankYouPage config) \<and>
   \<not> list_all (\<lambda>text. js_includes (innerText env_missing_text [PageUrl, Log (lit ''Current URL: '' @ formUrl config)]) text)
        (thankYouText config) \<and>
   fst (validateThankYouPageContent env_missing_text (lit ''/app/screenshots'') []) = Inr False"
  using detector_decision [of env_missing_text "[]" "lit ''/app/screenshots''"]
    not_includes_formUrl text_fragments_missing
  by (simp add: Let_def env_missing_text_def env0_def)

text \<open>
  C3 as stated fails: the URL does not match and a fragment is missing, but the
  screenshot cannot be taken, and the detector throws instead of returning false.
\<close>

theorem detector_missing_text_counterexample:
  "\<not> js_includes (pageUrl env_no_screenshot []) (thankYouPage config) \<and>
   \<not> list_all (\<lambda>text. js_includes (innerText env_no_screenshot [PageUrl, Log (lit ''Current URL: '' @ formUrl config)]) text)
        (thankYouText config) \<and>
   fst (validateThankYouPageContent env_no_screenshot (lit ''/app/screenshots'') []) = Inl closed_error"
  using not_includes_formUrl text_fragments_missing
  by (simp add: validateThankYouPageContent_def io_defs env_no_screenshot_def env_missing_text_def env0_def)

section \<open>Submitting: the screenshot comes first\<close>

lemma io_bind_log: "io_bind (log_io m) f t = f () (t @ [Log m])"
  by (simp add: io_defs)

lemma io_bind_screenshot_ok:
  "fails env t (Screenshot (path_join dir (prefix @ decimal (dateNow env t) @ lit ''.png''))) = None \<Longrightarrow>
   io_bind (screenshot env dir prefix) f t =
     f (path_join dir (prefix @ decimal (dateNow env t) @ lit ''.png''))
       (t @ [Screenshot (path_join dir (prefix @ decimal (dateNow env t) @ lit ''.png''))])"
  by (simp add: io_defs)

lemma io_bind_screenshot_fails:
  "fails env t (Screenshot (path_join dir (prefix @ decimal (dateNow env t) @ lit ''.png''))) = Some e \<Longrightarrow>
   io_bind (screenshot env dir prefix) f t =
     (Inl e, t @ [Screenshot (path_join dir (prefix @ decimal (dateNow env t) @ lit ''.png''))])"
  by (simp add: io_defs)

lemma bind_keeps_prefix:
  assumes "\<exists>rest. snd (m t) = t @ p @ rest" and f: "\<And>v. appends (\<lambda>es. True) (f v)"
  shows "\<exists>rest. snd (io_bind m f t) = t @ p @ rest"
proof -
  from assms(1) obtain rest where rest: "snd (m t) = t @ p @ rest" by blast
  show ?thesis
  proof (cases "m t")
    case (Pair r t')
    with rest have t': "t' = t @ p @ rest" by simp
    show ?thesis
    proof (cases r)
      case (Inl e)
      with Pair t' show ?thesis by (simp add: io_bind_def)
    next
      case (Inr v)
      from appendsD [OF f, of v t'] obtain es where "snd (f v t') = t' @ es" by blast
      with Pair Inr t' show ?thesis by (simp add: io_bind_def)
    qed
  qed
qed

lemma catch_keeps_prefix:
  assumes "\<exists>rest. snd (m t) = t @ p @ rest" and h: "\<And>e. appends (\<lambda>es. True) (h e)"
  shows "\<exists>rest. snd (io_catch m h t) = t @ p @ rest"
proof -
  from assms(1) obtain rest where rest: "snd (m t) = t @ p @ rest" by blast
  show ?thesis
  proof (cases "m t")
    case (Pair r t')
    with rest have t': "t' = t @ p @ rest" by simp
    show ?thesis
    proof (cases r)
      case (Inr v)
      with Pair t' show ?thesis by (simp add: io_catch_def)
    next
      case (Inl e)
      from appendsD [OF h, of e t'] obtain es where "snd (h e t') = t' @ es" by blast
      with Pair Inl t' show ?thesis by (simp add: io_catch_def)
    qed
  qed
qed

lemmas appends_intros =
  appends_if appends_catch appends_bind appends_log appends_perform appends_return appends_throw
  appends_page_url appends_evaluate appends_date_now appends_screenshot

lemma grows_retryClick: "appends (\<lambda>es. True) (retryClick env selector retries)"
  unfolding retryClick_def by (rule appends_retryClick_from) (simp_all add: closed_True)

lemma appends_option_case:
  "appends P a \<Longrightarrow> (\<And>x. appends P (b x)) \<Longrightarrow> appends P (case v of None \<Rightarrow> a | Some x \<Rightarrow> b x)"
  by (cases v) simp_all

lemma grows_validateThankYouPageContent:
  "appends (\<lambda>es. True) (validateThankYouPageContent env screenshotsDir)"
  unfolding validateThankYouPageContent_def
  by (intro appends_intros appends_option_case closed_True) simp_all

lemma grows_submitFormAndValidate:
  "appends (\<lambda>es. True) (submitFormAndValidate env selector screenshotsDir)"
  unfolding submitFormAndValidate_def
  by (intro appends_intros grows_retryClick grows_validateThankYouPageContent closed_True) simp_all

lemma appends_type:
  "(\<And>d. P [TypeText selector val d]) \<Longrightarrow>
   appends P (\<lambda>t. perform env (TypeText selector val (random100 env t + 50)) t)"
  by (simp add: appends_def perform_def split: option.splits)

lemma grows_fill_loop: "appends (\<lambda>es. True) (fill_loop env formData)"
proof (induction formData)
  case Nil
  show ?case by (simp add: appends_return closed_True)
next
  case (Cons entry rest)
  obtain selector val where entry: "entry = (selector, val)" by (cases entry)
  show ?case
    unfolding entry fill_loop.simps
    by (intro appends_intros appends_type Cons closed_True) simp_all
qed

lemma grows_fillFormFields: "appends (\<lambda>es. True) (fillFormFields env formData)"
  unfolding fillFormFields_def
  by (intro appends_intros grows_fill_loop closed_True) simp_all

lemma retryClick_first_attempt:
  "\<exists>rest. snd (retryClick env selector 3 t) =
     t @ [Log (msg_attempt 1 selector), WaitForSelector selector True 10000] @ rest"
proof -
  let ?W = "WaitForSelector selector True 10000"
  let ?ta = "t @ [Log (msg_attempt 1 selector)]"
  have grows: "\<exists>es. snd (retryClick_from env selector 3 2 t') = t' @ es" for t'
    using appendsD [OF appends_retryClick_from [of "\<lambda>es. True" selector env 3 2], of t']
    by (simp add: closed_True)
  show ?thesis
  proof (cases "fails env ?ta ?W")
    case (Some e)
    from grows [of "t @ [Log (msg_attempt 1 selector), ?W, Log (msg_failed 1 selector e)]"]
    show ?thesis
      unfolding retryClick_def using retry_wait_fails [of 1 3 env t selector e] Some by (auto simp: numeral_2_eq_2)
  next
    case None
    show ?thesis
    proof (cases "fails env (?ta @ [?W]) (Click selector)")
      case (Some e)
      then have S: "fails env (t @ [Log (msg_attempt 1 selector), ?W]) (Click selector) = Some e" by simp
      from grows [of "t @ [Log (msg_attempt 1 selector), ?W, Click selector, Log (msg_failed 1 selector e)]"]
      show ?thesis
        unfolding retryClick_def using retry_click_fails [of 1 3 env t selector e] None S by (auto simp: numeral_2_eq_2)
    next
      case N2: None
      then have S: "fails env (t @ [Log (msg_attempt 1 selector), ?W]) (Click selector) = None" by simp
      show ?thesis
        unfolding retryClick_def using retry_succeeds [of 1 3 env t selector] None S by auto
    qed
  qed
qed

text \<open>
  C5, as the code has it.  The screenshot before the submission is awaited outside the
  \<open>try\<close>: if it fails, \<open>submitFormAndValidate\<close> throws its error at once and the trace
  ends with the screenshot call; the first click attempt is made if and only after the
  screenshot has succeeded.
\<close>

theorem before_screenshot_gates_click:
  "let t1 = t @ [Log (lit ''Preparing to submit the form...'')];
       shot = Screenshot (path_join screenshotsDir
                (lit ''before_submission_'' @ decimal (dateNow env t1) @ lit ''.png''));
       r = submitFormAndValidate env selector screenshotsDir t
   in (\<forall>e. fails env t1 shot = Some e \<longrightarrow> r = (Inl e, t1 @ [shot])) \<and>
      (fails env t1 shot = None \<longrightarrow>
         (\<exists>rest. snd r = t1 @ [shot, Log (lit ''Screenshot captured before form submission.''),
                               Log (msg_attempt 1 selector), WaitForSelector selector True 10000] @ rest))"
proof -
  let ?t1 = "t @ [Log (lit ''Preparing to submit the form...'')]"
  let ?shot = "Screenshot (path_join screenshotsDir
                (lit ''before_submission_'' @ decimal (dateNow env ?t1) @ lit ''.png''))"
  let ?r = "submitFormAndValidate env selector screenshotsDir t"
  have fail: "?r = (Inl e, ?t1 @ [?shot])" if "fails env ?t1 ?shot = Some e" for e
    unfolding submitFormAndValidate_def io_bind_log io_bind_screenshot_fails [OF that] ..
  have ok: "\<exists>rest. snd ?r = ?t1 @ [?shot, Log (lit ''Screenshot captured before form submission.''),
                               Log (msg_attempt 1 selector), WaitForSelector selector True 10000] @ rest"
    if "fails env ?t1 ?shot = None"
  proof -
    let ?t3 = "(?t1 @ [?shot]) @ [Log (lit ''Screenshot captured before form submission.'')]"
    have "\<exists>rest. snd ?r = ?t3 @ [Log (msg_attempt 1 selector), WaitForSelector selector True 10000] @ rest"
      unfolding submitFormAndValidate_def
      apply (subst io_bind_log)
      apply (subst io_bind_screenshot_ok [OF that])
      apply (subst io_bind_log)
      apply (rule bind_keeps_prefix)
       apply (rule catch_keeps_prefix)
        apply (rule bind_keeps_prefix)
         apply (rule retryClick_first_attempt)
        apply (intro appends_intros closed_True; simp)
       apply (intro appends_intros closed_True; simp)
      apply (rule grows_validateThankYouPageContent)
      done
    then show ?thesis by simp
  qed
  show ?thesis unfolding Let_def using fail ok by blast
qed

text \<open>Every call succeeds: the screenshot is taken and the first click attempt follows.\<close>

theorem before_screenshot_gates_click_witness:
  "fails env0 [Log (lit ''Preparing to submit the form...'')]
     (Screenshot (path_join (lit ''/app/screenshots'')
        (lit ''before_submission_'' @ decimal 1700000000000 @ lit ''.png''))) = None \<and>
   (\<exists>rest. snd (submitFormAndValidate env0 (submitButton (selectors config)) (lit ''/app/screenshots'') []) =
      [Log (lit ''Preparing to submit the form...''),
       Screenshot (path_join (lit ''/app/screenshots'')
         (lit ''before_submission_'' @ decimal 1700000000000 @ lit ''.png'')),
       Log (lit ''Screenshot captured before form submission.''),
       Log (msg_attempt 1 (submitButton (selectors config))),
       WaitForSelector (submitButton (selectors config)) True 10000] @ rest)"
  using before_screenshot_gates_click [of "[]" "lit ''/app/screenshots''" env0 "submitButton (selectors config)"]
  by (simp add: Let_def env0_def)

text \<open>
  C5 as stated fails: when the screenshot cannot be taken, the error is thrown and the
  submit button is never clicked.
\<close>

theorem before_screenshot_blocks_click_counterexample:
  "submitFormAndValidate env_no_screenshot (submitButton (selectors config)) (lit ''/app/screenshots'') [] =
     (Inl closed_error,
      [Log (lit ''Preparing to submit the form...''),
       Screenshot (path_join (lit ''/app/screenshots'')
         (lit ''before_submission_'' @ decimal 1700000000000 @ lit ''.png''))]) \<and>
   Click (submitButton (selectors config)) \<notin>
     set (snd (submitFormAndValidate env_no_screenshot (submitButton (selectors config)) (lit ''/app/screenshots'') []))"
proof -
  have "fails env_no_screenshot ([] @ [Log (lit ''Preparing to submit the form...'')])
     (Screenshot (path_join (lit ''/app/screenshots'')
        (lit ''before_submission_'' @
         decimal (dateNow env_no_screenshot ([] @ [Log (lit ''Preparing to submit the form...'')])) @
         lit ''.png''))) = Some closed_error"
    by (simp add: env_no_screenshot_def)
  then have "submitFormAndValidate env_no_screenshot (submitButton (selectors config)) (lit ''/app/screenshots'') [] =
     (Inl closed_error,
      [Log (lit ''Preparing to submit the form...''),
       Screenshot (path_join (lit ''/app/screenshots'')
         (lit ''before_submission_'' @ decimal 1700000000000 @ lit ''.png''))])"
    unfolding submitFormAndValidate_def
    apply (subst io_bind_log)
    apply (subst io_bind_screenshot_fails, assumption)
    apply (simp add: env_no_screenshot_def env_missing_text_def env0_def)
    done
  then show ?thesis by simp
qed

section \<open>Validation comes before any fill or submit operation\<close>

lemma closed_guarded: "closed guarded"
proof -
  have "guarded (a @ b)" if a: "guarded a" and b: "guarded b" for a b
    unfolding guarded_def
  proof (intro allI impI)
    fix i
    assume i: "i < length (a @ b)" and fs: "is_fill_or_submit ((a @ b) ! i)"
    show "\<exists>j<i. (a @ b) ! j = validation_passed"
    proof (cases "i < length a")
      case True
      with fs a obtain j where "j < i" "a ! j = validation_passed"
        by (auto simp: guarded_def nth_append)
      with True show ?thesis by (intro exI [of _ j]) (simp add: nth_append)
    next
      case False
      with i have "i - length a < length b" by simp
      moreover from False fs have "is_fill_or_submit (b ! (i - length a))" by (simp add: nth_append)
      ultimately obtain j where "j < i - length a" "b ! j = validation_passed"
        using b unfolding guarded_def by blast
      with False show ?thesis by (intro exI [of _ "length a + j"]) (auto simp: nth_append)
    qed
  qed
  then show ?thesis by (simp add: closed_def guarded_def)
qed

lemma guarded_single: "\<not> is_fill_or_submit ev \<Longrightarrow> guarded [ev]"
  by (simp add: guarded_def)

lemma guarded_after_passed: "guarded (validation_passed # es)"
  unfolding guarded_def
proof (intro allI impI)
  fix i
  assume "i < length (validation_passed # es)" and "is_fill_or_submit ((validation_passed # es) ! i)"
  then have "0 < i" by (cases i) (simp_all add: validation_passed_def)
  then show "\<exists>j<i. (validation_passed # es) ! j = validation_passed"
    by (intro exI [of _ 0]) simp
qed

lemma appends_validate:
  assumes "validation_errors formData \<noteq> [] \<Longrightarrow> appends P (K (validation_errors formData))"
    and "validation_errors formData = [] \<Longrightarrow>
           \<forall>t. \<exists>es. snd (K [] (t @ [validation_passed,
                  Log (lit ''-----------------------------------------------------------------------------'')])) =
                  t @ es \<and> P es"
  shows "appends P (io_bind (validate_io formData) K)"
proof (cases "validation_errors formData = []")
  case True
  then have "io_bind (validate_io formData) K t =
      K [] (t @ [validation_passed, Log (lit ''-----------------------------------------------------------------------------'')])" for t
    by (simp add: io_bind_def validate_io_def validateFormData_def logWithTimestamp_def validation_passed_def)
  with assms(2) [OF True] show ?thesis by (simp add: appends_def)
next
  case False
  then have "io_bind (validate_io formData) K = K (validation_errors formData)"
    by (auto simp: io_bind_def validate_io_def validateFormData_def)
  with assms(1) [OF False] show ?thesis by simp
qed

lemma appends_validate_guarded:
  assumes "validation_errors formData \<noteq> [] \<Longrightarrow> appends guarded (K (validation_errors formData))"
    and "appends (\<lambda>es. True) (K [])"
  shows "appends guarded (io_bind (validate_io formData) K)"
proof (rule appends_validate [where K = K and P = guarded and formData = formData])
  show "validation_errors formData \<noteq> [] \<Longrightarrow> appends guarded (K (validation_errors formData))"
    by (rule assms(1))
  show "\<forall>t. \<exists>es. snd (K [] (t @ [validation_passed,
                  Log (lit ''-----------------------------------------------------------------------------'')])) =
                  t @ es \<and> guarded es"
  proof
    fix t
    let ?t' = "t @ [validation_passed, Log (lit ''-----------------------------------------------------------------------------'')]"
    from appendsD [OF assms(2), of ?t'] obtain es where "snd (K [] ?t') = ?t' @ es" by blast
    then have "snd (K [] ?t') = t @ (validation_passed #
        Log (lit ''-----------------------------------------------------------------------------'') # es)"
      by simp
    then show "\<exists>es. snd (K [] ?t') = t @ es \<and> guarded es"
      using guarded_after_passed by blast
  qed
qed

lemma appends_validate_invalid:
  assumes "validation_errors formData \<noteq> []"
    and "appends P (K (validation_errors formData))"
  shows "appends P (io_bind (validate_io formData) K)"
  using assms by (intro appends_validate) simp_all

lemma appends_wait_loop:
  "closed P \<Longrightarrow> (\<And>s. P [WaitForSelector s True 20000]) \<Longrightarrow> appends P (wait_loop env sels)"
  by (induction sels) (auto intro!: appends_intros)

lemma appends_log_each: "closed P \<Longrightarrow> (\<And>m. P [Log m]) \<Longrightarrow> appends P (log_each errors)"
  by (induction errors) (auto intro!: appends_intros)

lemma appends_first_page: "closed P \<Longrightarrow> P [Pages] \<Longrightarrow> P [NewPage] \<Longrightarrow> appends P (first_page env)"
  unfolding first_page_def appends_def
  by (auto simp: io_defs closed_def split: option.splits)

lemma appends_process_exit: "P [ProcessExit n] \<Longrightarrow> appends P (process_exit n)"
  by (simp add: appends_def process_exit_def)

lemma appends_ensureDirectoryExists:
  "closed P \<Longrightarrow> (\<And>m. P [Log m]) \<Longrightarrow> P [FsAccess dirPath] \<Longrightarrow> P [FsMkdir dirPath] \<Longrightarrow>
   appends P (ensureDirectoryExists env dirPath)"
  unfolding ensureDirectoryExists_def by (intro appends_intros) simp_all

lemma appends_ensureFormLoaded:
  "closed P \<Longrightarrow> (\<And>m. P [Log m]) \<Longrightarrow> (\<And>s v n. P [WaitForSelector s v n]) \<Longrightarrow>
   appends P (ensureFormLoaded env)"
  unfolding ensureFormLoaded_def by (intro appends_intros appends_wait_loop) simp_all

lemmas quiet_intros =
  appends_ensureDirectoryExists appends_ensureFormLoaded appends_first_page appends_process_exit
  appends_log_each

lemma run_invalid_quiet:
  assumes "validation_errors formData \<noteq> []"
  shows "appends (list_all (\<lambda>ev. \<not> is_fill_or_submit ev)) (runAutomationWith env formData)"
  unfolding runAutomationWith_def using assms
  by (intro appends_validate_invalid quiet_intros appends_intros closed_list_all) simp_all

lemma run_guarded: "appends guarded (runAutomationWith env formData)"
  unfolding runAutomationWith_def
  by (intro appends_validate_guarded quiet_intros appends_intros closed_guarded
        grows_fillFormFields grows_submitFormAndValidate closed_True)
     (simp_all add: guarded_single)

section \<open>The script when every call succeeds\<close>

text \<open>
  The end-to-end scenario: with the form data of the script, in an environment where every
  call succeeds and the page after the submission is the thank-you page, the run fills the
  four fields, submits, detects success and closes the browser once ENTER is pressed.
\<close>

lemma env0_simps:
  "fails env0 t ev = None" "pageUrl env0 t = thankYouUrl" "dateNow env0 t = 1700000000000"
  "random100 env0 t = 42" "openPages env0 t = 1" "enterPressed env0 t" "dirname env0 = lit ''/app''"
  by (simp_all add: env0_def)

lemma perform_env0: "perform env0 ev t = (Inr (), t @ [ev])"
  by (simp add: perform_def env0_simps)

lemma fill_env0:
  "fill_loop env0 formData t = (Inr (), t @ concat (map (\<lambda>(selector, val).
      [WaitForSelector selector True 20000, TypeText selector val 92,
       Log (lit ''Field \"'' @ selector @ lit ''\" filled with value: '' @ val @ lit '' (valid).'')]) formData))"
  by (induction formData arbitrary: t) (auto simp: io_defs env0_simps)

lemma wait_env0:
  "wait_loop env0 sels t = (Inr (), t @ map (\<lambda>s. WaitForSelector s True 20000) sels)"
  by (induction sels arbitrary: t) (auto simp: io_defs env0_simps)

lemma ensureDirectoryExists_env0:
  "ensureDirectoryExists env0 d t = (Inr (), t @ [FsAccess d, Log (lit ''Directory verified: '' @ d)])"
  by (simp add: ensureDirectoryExists_def io_defs env0_simps)

lemmas run_defs = io_bind_def io_catch_def io_return_def log_io_def logWithTimestamp_def
  date_now_def screenshot_def page_url_def

lemma ensureFormLoaded_env0:
  "ensureFormLoaded env0 t =
     (Inr (), t @ [Log (lit ''Ensuring all form fields are loaded...''), WaitForSelector (lit ''body'') False 30000] @
              map (\<lambda>s. WaitForSelector s True 20000) allSelectors @
              [Log (lit ''All form fields loaded successfully.'')])"
  by (simp add: ensureFormLoaded_def run_defs perform_env0 wait_env0)

lemma retryClick_env0:
  "retryClick env0 selector 3 t =
     (Inr (), t @ [Log (msg_attempt 1 selector), WaitForSelector selector True 10000, Click selector,
                   Log (msg_success 1 selector)])"
  unfolding retryClick_def by (rule retry_succeeds) (simp_all add: env0_simps)

lemma validateThankYouPageContent_env0:
  "validateThankYouPageContent env0 dir t =
     (Inr True, t @ [PageUrl, Log (lit ''Current URL: '' @ thankYouUrl),
                     Log (lit ''Thank you page reached successfully.'')])"
  by (simp add: validateThankYouPageContent_def run_defs env0_simps includes_thankYouUrl)

lemma submitFormAndValidate_env0:
  "submitFormAndValidate env0 selector dir t =
     (Inr True,
      t @ [Log (lit ''Preparing to submit the form...''),
           Screenshot (path_join dir (lit ''before_submission_'' @ decimal 1700000000000 @ lit ''.png'')),
           Log (lit ''Screenshot captured before form submission.''),
           Log (msg_attempt 1 selector), WaitForSelector selector True 10000, Click selector,
           Log (msg_success 1 selector),
           Log (lit ''Form submitted, waiting for navigation...''),
           Log (lit ''-----------------------------------------------------------------------------''),
           WaitForNavigation 30000,
           PageUrl, Log (lit ''Current URL: '' @ thankYouUrl),
           Log (lit ''Thank you page reached successfully.'')])"
  by (simp add: submitFormAndValidate_def run_defs perform_env0 env0_simps retryClick_env0
        validateThankYouPageContent_env0)

lemma fillFormFields_env0:
  "fillFormFields env0 formData t =
    (Inr (), t @ Log (lit ''Filling form fields...'') # concat (map (\<lambda>(selector, val).
      [WaitForSelector selector True 20000, TypeText selector val 92,
       Log (lit ''Field \"'' @ selector @ lit ''\" filled with value: '' @ val @ lit '' (valid).'')]) formData))"
  by (simp add: fillFormFields_def run_defs fill_env0)

lemma validate_io_formData0:
  "validate_io formData0 t =
     (Inr [], t @ [validation_passed,
                   Log (lit ''-----------------------------------------------------------------------------'')])"
  by (simp add: validate_io_def validateFormData_def validation_errors_formData0 logWithTimestamp_def
        validation_passed_def)

lemma first_page_env0: "first_page env0 t = (Inr (), t @ [Pages])"
  by (simp add: first_page_def run_defs perform_env0 env0_simps)

lemma runAutomation_env0:
  "runAutomation env0 [] =
     (Inr AwaitingEnter,
      [Log (lit ''Starting automation...''), Launch, Pages, Goto (formUrl config),
       Log (lit ''Navigated to form URL.''), FsAccess (path_join (lit ''/app'') (lit ''screenshots'')),
       Log (lit ''Directory verified: '' @ path_join (lit ''/app'') (lit ''screenshots'')),
       Log (lit ''Ensuring all form fields are loaded...''), WaitForSelector (lit ''body'') False 30000] @
      map (\<lambda>s. WaitForSelector s True 20000) allSelectors @
      [Log (lit ''All form fields loaded successfully.''),
       validation_passed,
       Log (lit ''-----------------------------------------------------------------------------''),
       Log (lit ''Filling form fields...'')] @
      concat (map (\<lambda>(selector, val).
        [WaitForSelector selector True 20000, TypeText selector val 92,
         Log (lit ''Field \"'' @ selector @ lit ''\" filled with value: '' @ val @ lit '' (valid).'')]) formData0) @
      [Log (lit ''Changing the number of employees to 51-500...''),
       SelectOption (employees (selectors config)) (lit ''51-500''),
       Log (lit ''Preparing to submit the form...''),
       Screenshot (path_join (path_join (lit ''/app'') (lit ''screenshots''))
         (lit ''before_submission_'' @ decimal 1700000000000 @ lit ''.png'')),
       Log (lit ''Screenshot captured before form submission.''),
       Log (msg_attempt 1 (submitButton (selectors config))),
       WaitForSelector (submitButton (selectors config)) True 10000,
       Click (submitButton (selectors config)),
       Log (msg_success 1 (submitButton (selectors config))),
       Log (lit ''Form submitted, waiting for navigation...''),
       Log (lit ''-----------------------------------------------------------------------------''),
       WaitForNavigation 30000,
       PageUrl, Log (lit ''Current URL: '' @ thankYouUrl),
       Log (lit ''Thank you page reached successfully.''),
       Log (lit ''Form successfully submitted and validated.''),
       Log (lit ''Automation completed. Press ENTER to exit and close the browser.''),
       Question (lit ''Press ENTER to exit and close the browser...'')])"
  by (simp add: runAutomation_def runAutomationWith_def run_defs perform_env0 env0_simps first_page_env0
        ensureDirectoryExists_env0 ensureFormLoaded_env0 validate_io_formData0 fillFormFields_env0
        submitFormAndValidate_env0)

lemma main_env0:
  "main env0 =
     (Finished, snd (runAutomation env0 []) @
                [RlClose, BrowserClose, Log (lit ''Browser closed. Exiting script.'')])"
  by (simp add: main_def script_def runAutomation_def [symmetric] runAutomation_env0 enter_callback_def
        perform_env0 env0_simps logWithTimestamp_def)

lemma script_trace:
  "\<exists>extra. snd (script env formData) = snd (runAutomationWith env formData []) @ extra \<and>
           list_all (\<lambda>ev. \<not> is_fill_or_submit ev) extra"
proof (cases "runAutomationWith env formData []")
  case (Pair r t)
  show ?thesis
  proof (cases r)
    case (Inl e)
    with Pair show ?thesis by (simp add: script_def logWithTimestamp_def)
  next
    case (Inr e)
    with Pair show ?thesis
      by (cases e)
         (auto simp: script_def enter_callback_def perform_def logWithTimestamp_def split: option.splits)
  qed
qed

lemma guarded_quiet: "list_all (\<lambda>ev. \<not> is_fill_or_submit ev) es \<Longrightarrow> guarded es"
  by (auto simp: guarded_def list_all_length)

text \<open>
  C1.  In the trace of a whole run of the script on any form data: if the validator
  reports an error, no fill or submit operation occurs at all; and every fill or submit
  operation that occurs is preceded by the log line that all fields passed validation,
  and then the validator has returned the empty list for the form data as a whole.
\<close>

theorem no_fill_before_validation:
  "let tr = snd (script env formData) in
     (validation_errors formData \<noteq> [] \<longrightarrow> list_all (\<lambda>ev. \<not> is_fill_or_submit ev) tr) \<and>
     (\<forall>i < length tr. is_fill_or_submit (tr ! i) \<longrightarrow>
        validation_errors formData = [] \<and> (\<exists>j < i. tr ! j = validation_passed))"
proof -
  let ?tr = "snd (script env formData)"
  from script_trace obtain extra where
    tr: "?tr = snd (runAutomationWith env formData []) @ extra"
    and extra: "list_all (\<lambda>ev. \<not> is_fill_or_submit ev) extra"
    by blast
  have quiet: "list_all (\<lambda>ev. \<not> is_fill_or_submit ev) ?tr" if "validation_errors formData \<noteq> []"
    using appendsD [OF run_invalid_quiet [OF that], of env "[]"] tr extra by auto
  from appendsD [OF run_guarded, of env formData "[]"]
  have "guarded (snd (runAutomationWith env formData []))" by simp
  then have "guarded ?tr"
    unfolding tr using guarded_quiet [OF extra] by (rule closed_append [OF closed_guarded])
  then have order: "\<exists>j < i. ?tr ! j = validation_passed"
    if "i < length ?tr" "is_fill_or_submit (?tr ! i)" for i
    using that unfolding guarded_def by blast
  have valid: "validation_errors formData = []"
    if "i < length ?tr" "is_fill_or_submit (?tr ! i)" for i
  proof (rule ccontr)
    assume "validation_errors formData \<noteq> []"
    from quiet [OF this] that show False by (simp add: list_all_length)
  qed
  show ?thesis unfolding Let_def using quiet order valid by blast
qed

lemma validation_errors_no_at: "validation_errors formData_no_at = [msg_email]"
  by (simp add: formData_no_at_def validation_errors_def config_def
        test_nonEmptyRegex test_emailRegex get_prop_def)
     (simp add: lit_def dot_def is_space_def is_line_terminator_def)

lemma script_env0_prefix:
  "\<exists>rest. snd (script env0 formData0) =
     [Log (lit ''Starting automation...''), Launch, Pages, Goto (formUrl config),
      Log (lit ''Navigated to form URL.''), FsAccess (path_join (lit ''/app'') (lit ''screenshots'')),
      Log (lit ''Directory verified: '' @ path_join (lit ''/app'') (lit ''screenshots'')),
      Log (lit ''Ensuring all form fields are loaded...''), WaitForSelector (lit ''body'') False 30000,
      WaitForSelector (name (selectors config)) True 20000,
      WaitForSelector (email (selectors config)) True 20000,
      WaitForSelector (phone (selectors config)) True 20000,
      WaitForSelector (company (selectors config)) True 20000,
      WaitForSelector (employees (selectors config)) True 20000,
      WaitForSelector (submitButton (selectors config)) True 20000,
      Log (lit ''All form fields loaded successfully.''),
      validation_passed,
      Log (lit ''-----------------------------------------------------------------------------''),
      Log (lit ''Filling form fields...''),
      WaitForSelector (name (selectors config)) True 20000,
      TypeText (name (selectors config)) (lit ''Eden Oved'') 92] @ rest"
  using main_env0
  by (simp add: main_def runAutomation_env0 allSelectors_def formData0_def)

text \<open>
  The failure scenario: the email has no \<open>@\<close>, and the run touches no field.  The
  end-to-end scenario: the first field is typed at position 20 of the trace, after the
  validation has passed.
\<close>

theorem no_fill_before_validation_witness:
  "validation_errors formData_no_at = [msg_email] \<and>
   list_all (\<lambda>ev. \<not> is_fill_or_submit ev) (snd (script env0 formData_no_at)) \<and>
   snd (script env0 formData0) ! 20 = TypeText (name (selectors config)) (lit ''Eden Oved'') 92 \<and>
   validation_errors formData0 = [] \<and>
   (\<exists>j < 20. snd (script env0 formData0) ! j = validation_passed)"
proof -
  from script_env0_prefix obtain rest where
    tr: "snd (script env0 formData0) =
     [Log (lit ''Starting automation...''), Launch, Pages, Goto (formUrl config),
      Log (lit ''Navigated to form URL.''), FsAccess (path_join (lit ''/app'') (lit ''screenshots'')),
      Log (lit ''Directory verified: '' @ path_join (lit ''/app'') (lit ''screenshots'')),
      Log (lit ''Ensuring all form fields are loaded...''), WaitForSelector (lit ''body'') False 30000,
      WaitForSelector (name (selectors config)) True 20000,
      WaitForSelector (email (selectors config)) True 20000,
      WaitForSelector (phone (selectors config)) True 20000,
      WaitForSelector (company (selectors config)) True 20000,
      WaitForSelector (employees (selectors config)) True 20000,
      WaitForSelector (submitButton (selectors config)) True 20000,
      Log (lit ''All form fields loaded successfully.''),
      validation_passed,
      Log (lit ''-----------------------------------------------------------------------------''),
      Log (lit ''Filling form fields...''),
      WaitForSelector (name (selectors config)) True 20000,
      TypeText (name (selectors config)) (lit ''Eden Oved'') 92] @ rest"
    by blast
  have at20: "snd (script env0 formData0) ! 20 = TypeText (name (selectors config)) (lit ''Eden Oved'') 92"
    and len: "20 < length (snd (script env0 formData0))"
    unfolding tr by simp_all
  from no_fill_before_validation [of env0 formData0] len at20
  have "validation_errors formData0 = [] \<and> (\<exists>j < 20. snd (script env0 formData0) ! j = validation_passed)"
    unfolding Let_def by (metis is_fill_or_submit.simps(1))
  with at20 show ?thesis
    using no_fill_before_validation [of env0 formData_no_at] validation_errors_no_at
    by (simp add: Let_def)
qed

section \<open>Closing the browser\<close>

text \<open>
  C7.  The browser is launched and listing its pages fails.  The error leaves
  \<open>runAutomation\<close> before its \<open>try\<close>; the rejection handler of the script logs it and then
  fails on the identifier \<open>browser\<close>.  The run ends with the ReferenceError and the
  browser has not been closed.
\<close>

theorem browser_left_open:
  "main env_pages_fail =
     (Rejected (JsError (lit ''ReferenceError'') None (lit ''browser is not defined'')),
      [Log (lit ''Starting automation...''), Launch, Pages,
       Log (lit ''Unhandled error: '' @ err_message closed_error)]) \<and>
   BrowserClose \<notin> set (snd (main env_pages_fail))"
  by (simp add: main_def script_def runAutomationWith_def first_page_def io_bind_def perform_def
        log_io_def logWithTimestamp_def env_pages_fail_def env0_def)

lemma validate_io_no_at: "validate_io formData_no_at t = (Inr [msg_email], t)"
  by (simp add: validate_io_def validateFormData_def validation_errors_no_at)

text \<open>
  With form data that fails validation the run returns from inside the \<open>try\<close>; the
  browser stays open there too.
\<close>

lemma validation_failure_leaves_browser_open:
  "fst (script env0 formData_no_at) = Pending \<and>
   Launch \<in> set (snd (script env0 formData_no_at)) \<and>
   BrowserClose \<notin> set (snd (script env0 formData_no_at))"
  by (simp add: script_def runAutomationWith_def run_defs perform_env0 env0_simps first_page_env0
        ensureDirectoryExists_env0 ensureFormLoaded_env0 validate_io_no_at allSelectors_def)

end
